theory Spec2Isabelle
  imports Main "HOL-Library.AList"
begin

section \<open>The gateway of server.py: static files, config injection and API proxy\<close>

text \<open>
  The development embeds \<^verbatim>\<open>server.py\<close>: the configuration resolver
  \<^verbatim>\<open>get_databricks_config\<close>, the handler class \<^verbatim>\<open>CustomHandler\<close> with its
  methods \<^verbatim>\<open>proxy_api_request\<close>, \<^verbatim>\<open>do_GET\<close>, \<^verbatim>\<open>end_headers\<close>, \<^verbatim>\<open>do_POST\<close>,
  \<^verbatim>\<open>do_DELETE\<close>, \<^verbatim>\<open>do_PUT\<close>, \<^verbatim>\<open>do_PATCH\<close>, and the serving loop.

  \<^verbatim>\<open>CustomHandler\<close> inherits from \<^verbatim>\<open>http.server.SimpleHTTPRequestHandler\<close>. The
  inherited methods the handler runs (\<^verbatim>\<open>send_response\<close>, \<^verbatim>\<open>send_header\<close>,
  \<^verbatim>\<open>send_error\<close>, \<^verbatim>\<open>send_head\<close>, \<^verbatim>\<open>do_HEAD\<close>, \<^verbatim>\<open>handle_one_request\<close>) are
  embedded from the library (CPython 3.11) as far as they decide status, headers and body.
  What lies outside the process is a field of the record \<open>world\<close>: the environment
  variables, the outcome of \<^verbatim>\<open>SdkConfig()\<close>, the outcome of \<^verbatim>\<open>urlopen\<close> for a given
  outbound request, the file system as seen by \<^verbatim>\<open>send_head\<close>, the library's table
  \<^verbatim>\<open>responses\<close>, the server's version string and the clock.

  Text is a \<open>string\<close>, one \<open>char\<close> per code point below 256: the request line and the
  header lines are decoded as ISO-8859-1 by the library. Bodies are bytes, also one
  \<open>char\<close> each. Environment values and the text of \<^verbatim>\<open>config.js\<close> are held as their
  UTF-8 bytes. A request is taken as parsed (\<^verbatim>\<open>parse_request\<close> succeeded) under
  HTTP/1.0 or later.
\<close>

subsection \<open>Python's string operations\<close>

definition startswith :: "string \<Rightarrow> string \<Rightarrow> bool" where
  "startswith s p = (take (length p) s = p)"

definition endswith :: "string \<Rightarrow> string \<Rightarrow> bool" where
  "endswith s p = (length p \<le> length s \<and> drop (length s - length p) s = p)"


text \<open>\<^verbatim>\<open>str.lower\<close> on code points below 256: the letters A to Z, and the letters from
  0xC0 to 0xDE apart from the multiplication sign 0xD7, move up by 32.\<close>

definition lower_char :: "char \<Rightarrow> char" where
  "lower_char c =
     (let n = (of_char c :: nat)
      in if (65 \<le> n \<and> n \<le> 90) \<or> (192 \<le> n \<and> n \<le> 222 \<and> n \<noteq> 215)
         then char_of (n + 32) else c)"

definition lower :: "string \<Rightarrow> string" where
  "lower s = map lower_char s"

definition digit_char :: "nat \<Rightarrow> char" where
  "digit_char d = ''0123456789abcdef'' ! d"

text \<open>\<^verbatim>\<open>str(n)\<close> for a natural number, and for an integer.\<close>

fun str_nat :: "nat \<Rightarrow> string" where
  "str_nat n = (if n < 10 then [digit_char n] else str_nat (n div 10) @ [digit_char (n mod 10)])"

declare str_nat.simps [simp del]

definition str_int :: "int \<Rightarrow> string" where
  "str_int i = (if i < 0 then CHR ''-'' # str_nat (nat (- i)) else str_nat (nat i))"

text \<open>\<^verbatim>\<open>html.escape(s, quote=False)\<close>.\<close>

fun html_escape :: "string \<Rightarrow> string" where
  "html_escape [] = []"
| "html_escape (c # cs) =
     (if c = CHR ''&'' then ''&amp;'' @ html_escape cs
      else if c = CHR ''<'' then ''&lt;'' @ html_escape cs
      else if c = CHR ''>'' then ''&gt;'' @ html_escape cs
      else c # html_escape cs)"

text \<open>\<^verbatim>\<open>s.encode('UTF-8')\<close> for code points below 256: two bytes from 0x80 on.\<close>

definition encode_char :: "char \<Rightarrow> string" where
  "encode_char c =
     (let n = (of_char c :: nat)
      in if n < 128 then [c] else [char_of (192 + n div 64), char_of (128 + n mod 64)])"

definition encode_utf8 :: "string \<Rightarrow> string" where
  "encode_utf8 s = concat (map encode_char s)"

text \<open>\<^verbatim>\<open>repr(s)\<close> of a string of code points below 256: double quotes when the string
  has a single quote and no double quote, single quotes otherwise; the quote and the
  backslash are escaped, tab, newline and return are written as letters, and the other
  characters that are not printable (below 0x20, 0x7F to 0xA0, 0xAD) as \<^verbatim>\<open>\xhh\<close>.\<close>

definition repr_char :: "char \<Rightarrow> char \<Rightarrow> string" where
  "repr_char q c =
     (let n = (of_char c :: nat)
      in if c = q \<or> c = CHR 0x5C then [CHR 0x5C, c]
         else if n = 9 then [CHR 0x5C, CHR ''t'']
         else if n = 10 then [CHR 0x5C, CHR ''n'']
         else if n = 13 then [CHR 0x5C, CHR ''r'']
         else if n < 32 \<or> (127 \<le> n \<and> n \<le> 160) \<or> n = 173
           then [CHR 0x5C, CHR ''x'', digit_char (n div 16), digit_char (n mod 16)]
         else [c])"

definition repr :: "string \<Rightarrow> string" where
  "repr s =
     (let q = (if CHR 0x27 \<in> set s \<and> CHR 0x22 \<notin> set s then CHR 0x22 else CHR 0x27)
      in [q] @ concat (map (repr_char q) s) @ [q])"

subsection \<open>Uncaught exceptions\<close>

datatype py_error = ValueError string

text \<open>\<^verbatim>\<open>int(s)\<close> on a string, base 10: white space (tab to carriage return,
  space, 0x85, 0xA0) is stripped at both ends, a sign may come first, then digits, with
  single underscores allowed between two digits. The interpreter scans the digits and
  underscores first; a misplaced underscore or no digit at all raises \<^verbatim>\<open>ValueError\<close>,
  then more than 4300 digits raise it (the default of \<^verbatim>\<open>sys.int_info\<close>, which
  \<^verbatim>\<open>server.py\<close> leaves alone), then anything left after the digits raises it.\<close>

definition isspace :: "char \<Rightarrow> bool" where
  "isspace c =
     (let n = (of_char c :: nat)
      in (9 \<le> n \<and> n \<le> 13) \<or> n = 32 \<or> n = 133 \<or> n = 160)"

definition strip :: "string \<Rightarrow> string" where
  "strip s = rev (dropWhile isspace (rev (dropWhile isspace s)))"

definition isdigit :: "char \<Rightarrow> bool" where
  "isdigit c = (48 \<le> (of_char c :: nat) \<and> (of_char c :: nat) \<le> 57)"

fun parse_digits :: "bool \<Rightarrow> nat \<Rightarrow> string \<Rightarrow> nat option" where
  "parse_digits prev acc [] = (if prev then Some acc else None)"
| "parse_digits prev acc (c # cs) =
     (if isdigit c then parse_digits True (10 * acc + (of_char c - 48)) cs
      else if c = CHR ''_'' \<and> prev then parse_digits False acc cs
      else None)"

definition py_int :: "string \<Rightarrow> py_error + int" where
  "py_int s =
     (let t = strip s;
          neg = (t \<noteq> [] \<and> hd t = CHR ''-'');
          ds = (if t \<noteq> [] \<and> (hd t = CHR ''-'' \<or> hd t = CHR ''+'') then tl t else t);
          run = takeWhile (\<lambda>c. isdigit c \<or> c = CHR ''_'') ds;
          rest = dropWhile (\<lambda>c. isdigit c \<or> c = CHR ''_'') ds;
          ndigits = length (filter isdigit run);
          invalid = Inl (ValueError (''invalid literal for int() with base 10: ''
                                     @ take 200 (repr s)))
      in case parse_digits False 0 run of
           None \<Rightarrow> invalid
         | Some n \<Rightarrow>
             if ndigits > 4300 then
               Inl (ValueError
                     (''Exceeds the limit (4300 digits) for integer string conversion: ''
                      @ ''value has '' @ str_nat ndigits @ '' digits; ''
                      @ ''use sys.set_int_max_str_digits() to increase the limit''))
             else if rest \<noteq> [] then invalid
             else Inr (if neg then - int n else int n))"

subsection \<open>Requests, responses and the world outside\<close>

type_synonym header = "string \<times> string"

text \<open>The handler's view of the inbound request: \<^verbatim>\<open>self.command\<close>, \<^verbatim>\<open>self.path\<close>
  (the request target with its query string), \<^verbatim>\<open>self.headers\<close> in the order received,
  and the bytes that \<^verbatim>\<open>self.rfile\<close> still holds.\<close>

record request =
  command :: string
  path :: string
  headers :: "header list"
  rfile :: string

text \<open>What the handler has sent: the status line, the headers in the order of the
  \<^verbatim>\<open>send_header\<close> calls, and the bytes written to \<^verbatim>\<open>self.wfile\<close> after them.\<close>

record response =
  status :: int
  reason :: string
  sent_headers :: "header list"
  wfile :: string

text \<open>The arguments of \<^verbatim>\<open>urllib.request.Request(url, headers=headers, method=method)\<close>
  and the \<^verbatim>\<open>data\<close> attribute set afterwards.\<close>

record outbound =
  url :: string
  req_headers :: "header list"
  req_method :: string
  data :: "string option"

text \<open>The three ways \<^verbatim>\<open>urlopen\<close> and the reading of its response end in
  \<^verbatim>\<open>proxy_api_request\<close>: a response (\<^verbatim>\<open>response.status\<close>,
  \<^verbatim>\<open>response.headers.items()\<close>, \<^verbatim>\<open>response.read()\<close>), an \<^verbatim>\<open>HTTPError\<close>
  (\<^verbatim>\<open>e.code\<close>, \<^verbatim>\<open>e.reason\<close>, and \<^verbatim>\<open>e.read()\<close> when \<^verbatim>\<open>e.fp\<close> is set), or any other
  exception (\<^verbatim>\<open>str(e)\<close>).\<close>

datatype urlopen_result =
    Response int "header list" string
  | HTTPError int string "string option"
  | OtherError string

text \<open>The branches of the library's \<^verbatim>\<open>send_head\<close>. Which one is taken depends on the
  directory \<^verbatim>\<open>dist\<close> and on the clock; what is sent in each is below.\<close>

datatype send_head_case =
    Redirect string
  | Listing string string
  | ListingDenied
  | NotFound
  | NotModified
  | Found string nat string string

datatype sdk_config_result = Raised string | Cfg "string option"

record world =
  environ :: "string \<rightharpoonup> string"
  DATABRICKS_SDK_AVAILABLE :: bool
  SdkConfig :: sdk_config_result
  urlopen :: "outbound \<Rightarrow> urlopen_result"
  translate :: "request \<Rightarrow> send_head_case"
  responses :: "int \<rightharpoonup> string \<times> string"
  version_string :: string
  date_time_string :: string

definition getenv :: "world \<Rightarrow> string \<Rightarrow> string \<Rightarrow> string" where
  "getenv w name dflt = (case environ w name of None \<Rightarrow> dflt | Some v \<Rightarrow> v)"

subsection \<open>The configuration resolver\<close>

record config =
  host :: string
  token :: string

definition get_databricks_config :: "world \<Rightarrow> config" where
  "get_databricks_config w =
     (let fallback = \<lparr>host = getenv w ''DATABRICKS_HOST'' [],
                      token = getenv w ''DATABRICKS_TOKEN'' []\<rparr>
      in if DATABRICKS_SDK_AVAILABLE w then
           (case SdkConfig w of
              Cfg h \<Rightarrow>
                \<lparr>host = (case h of
                           None \<Rightarrow> getenv w ''DATABRICKS_HOST'' []
                         | Some x \<Rightarrow> if x \<noteq> [] then x else getenv w ''DATABRICKS_HOST'' []),
                 token = getenv w ''DATABRICKS_TOKEN'' []\<rparr>
            | Raised e \<Rightarrow> fallback)
         else fallback)"

text \<open>The module's global variables that a handler can reach. The module assigns
  \<^verbatim>\<open>databricks_config\<close> once, when it is loaded.\<close>

record globals =
  databricks_config :: config

definition init_globals :: "world \<Rightarrow> globals" where
  "init_globals w = \<lparr>databricks_config = get_databricks_config w\<rparr>"

subsection \<open>Inbound headers\<close>

text \<open>\<^verbatim>\<open>self.headers.get(name)\<close> and \<^verbatim>\<open>self.headers[name]\<close>: the value of the first
  header whose name matches without regard to case, \<^verbatim>\<open>None\<close> when there is none.
  \<^verbatim>\<open>name in self.headers\<close>: some header matches.\<close>

fun headers_get :: "header list \<Rightarrow> string \<Rightarrow> string option" where
  "headers_get [] name = None"
| "headers_get ((k, v) # hs) name = (if lower k = lower name then Some v else headers_get hs name)"

definition headers_contains :: "header list \<Rightarrow> string \<Rightarrow> bool" where
  "headers_contains hs name = (lower name \<in> set (map (\<lambda>(k, v). lower k) hs))"

subsection \<open>The library's response methods\<close>

text \<open>\<^verbatim>\<open>send_response(code, message)\<close>: the status line, with the short phrase of
  \<^verbatim>\<open>responses\<close> (or the empty string) when no message is given, then the headers
  \<^verbatim>\<open>Server\<close> and \<^verbatim>\<open>Date\<close>.\<close>

definition send_response :: "world \<Rightarrow> int \<Rightarrow> string option \<Rightarrow> response" where
  "send_response w code message =
     \<lparr>status = code,
      reason = (case message of
                  Some m \<Rightarrow> m
                | None \<Rightarrow> (case responses w code of Some (short, long) \<Rightarrow> short | None \<Rightarrow> [])),
      sent_headers = [(''Server'', version_string w), (''Date'', date_time_string w)],
      wfile = []\<rparr>"

definition send_header :: "string \<Rightarrow> string \<Rightarrow> response \<Rightarrow> response" where
  "send_header keyword v r = r\<lparr>sent_headers := sent_headers r @ [(keyword, v)]\<rparr>"

definition wfile_write :: "string \<Rightarrow> response \<Rightarrow> response" where
  "wfile_write b r = r\<lparr>wfile := wfile r @ b\<rparr>"

text \<open>\<^verbatim>\<open>CustomHandler.end_headers\<close> (server.py, lines 152 to 158). The inherited
  \<^verbatim>\<open>end_headers\<close> that it calls last closes the header block and adds nothing.\<close>

definition end_headers :: "request \<Rightarrow> response \<Rightarrow> response" where
  "end_headers self r =
     (if endswith (path self) ''.html'' \<or> path self = ''/'' \<or> path self = ''/index.html''
      then send_header ''Expires'' ''0''
             (send_header ''Pragma'' ''no-cache''
               (send_header ''Cache-Control'' ''no-cache, no-store, must-revalidate'' r))
      else r)"

text \<open>The library's \<^verbatim>\<open>DEFAULT_ERROR_MESSAGE\<close>, filled in.\<close>

definition error_message_format :: "int \<Rightarrow> string \<Rightarrow> string \<Rightarrow> string" where
  \<open>error_message_format code message explain =
     ''<!DOCTYPE HTML>\<newline><html lang="en">\<newline>    <head>\<newline>''
     @ ''        <meta charset="utf-8">\<newline>''
     @ ''        <title>Error response</title>\<newline>    </head>\<newline>    <body>\<newline>''
     @ ''        <h1>Error response</h1>\<newline>''
     @ ''        <p>Error code: '' @ str_int code @ ''</p>\<newline>''
     @ ''        <p>Message: '' @ message @ ''.</p>\<newline>''
     @ ''        <p>Error code explanation: '' @ str_int code @ '' - '' @ explain @ ''.</p>\<newline>''
     @ ''    </body>\<newline></html>\<newline>''\<close>

text \<open>\<^verbatim>\<open>send_error(code, message)\<close>, which ends its headers through the overridden
  \<^verbatim>\<open>end_headers\<close>.\<close>

definition send_error :: "world \<Rightarrow> request \<Rightarrow> int \<Rightarrow> string option \<Rightarrow> response" where
  "send_error w self code message =
     (let (shortmsg, longmsg) =
            (case responses w code of Some p \<Rightarrow> p | None \<Rightarrow> (''???'', ''???''));
          msg = (case message of None \<Rightarrow> shortmsg | Some m \<Rightarrow> m);
          explain = longmsg;
          r1 = send_header ''Connection'' ''close'' (send_response w code (Some msg));
          body = (if code \<ge> 200 \<and> code \<noteq> 204 \<and> code \<noteq> 205 \<and> code \<noteq> 304
                  then Some (encode_utf8
                               (error_message_format code (html_escape msg) (html_escape explain)))
                  else None);
          r2 = (case body of
                  None \<Rightarrow> r1
                | Some b \<Rightarrow>
                    send_header ''Content-Length'' (str_nat (length b))
                      (send_header ''Content-Type'' ''text/html;charset=utf-8'' r1));
          r3 = end_headers self r2
      in case body of
           None \<Rightarrow> r3
         | Some b \<Rightarrow> if command self \<noteq> ''HEAD'' \<and> b \<noteq> [] then wfile_write b r3 else r3)"

subsection \<open>The inherited static file server\<close>

text \<open>\<^verbatim>\<open>send_head\<close> returns the response head and the file object to copy, if any.\<close>

definition send_head :: "world \<Rightarrow> request \<Rightarrow> response \<times> string option" where
  "send_head w self =
     (case translate w self of
        Redirect new_url \<Rightarrow>
          (end_headers self
             (send_header ''Content-Length'' ''0''
               (send_header ''Location'' new_url (send_response w 301 None))), None)
      | Listing enc encoded \<Rightarrow>
          (end_headers self
             (send_header ''Content-Length'' (str_nat (length encoded))
               (send_header ''Content-type'' (''text/html; charset='' @ enc)
                 (send_response w 200 None))), Some encoded)
      | ListingDenied \<Rightarrow>
          (send_error w self 404 (Some ''No permission to list directory''), None)
      | NotFound \<Rightarrow> (send_error w self 404 (Some ''File not found''), None)
      | NotModified \<Rightarrow> (end_headers self (send_response w 304 None), None)
      | Found ctype sz mtime content \<Rightarrow>
          (end_headers self
             (send_header ''Last-Modified'' mtime
               (send_header ''Content-Length'' (str_nat sz)
                 (send_header ''Content-type'' ctype (send_response w 200 None)))),
           Some content))"

text \<open>\<^verbatim>\<open>SimpleHTTPRequestHandler.do_GET\<close> copies the file after the head;
  \<^verbatim>\<open>do_HEAD\<close> closes it unread.\<close>

definition super_do_GET :: "world \<Rightarrow> request \<Rightarrow> response" where
  "super_do_GET w self =
     (case send_head w self of (r, Some f) \<Rightarrow> wfile_write f r | (r, None) \<Rightarrow> r)"

definition do_HEAD_response :: "world \<Rightarrow> request \<Rightarrow> response" where
  "do_HEAD_response w self = fst (send_head w self)"

subsection \<open>The reverse proxy\<close>

text \<open>A handler returns what it sent together with the outbound requests it passed to
  \<^verbatim>\<open>urlopen\<close>, in order, or the exception it let escape.\<close>

type_synonym handled = "response \<times> outbound list"

type_synonym result = "py_error + handled"

text \<open>The loop of lines 85 to 87 over \<^verbatim>\<open>response.headers.items()\<close>.\<close>

fun relay_headers :: "header list \<Rightarrow> response \<Rightarrow> response" where
  "relay_headers [] r = r"
| "relay_headers ((header, v) # hs) r =
     (if lower header \<notin> set [''transfer-encoding'', ''connection'']
      then relay_headers hs (send_header header v r)
      else relay_headers hs r)"

text \<open>Lines 56 to 80 of \<^verbatim>\<open>proxy_api_request\<close>: the request handed to \<^verbatim>\<open>urlopen\<close>.
  The dictionary \<^verbatim>\<open>headers\<close> is an association list in insertion order.
  \<^verbatim>\<open>if obo_token:\<close> and \<^verbatim>\<open>if body:\<close> hold for a value that is neither
  \<^verbatim>\<open>None\<close> nor empty.\<close>

definition build_request :: "string \<Rightarrow> request \<Rightarrow> string \<Rightarrow> string option \<Rightarrow> outbound" where
  "build_request h self method body =
     (let u = ''https://'' @ h @ path self;
          hdrs = [(''Content-Type'', ''application/json''),
                  (''User-Agent'', ''Databricks-App/1.0'')];
          obo_token = headers_get (headers self) ''X-Forwarded-Access-Token'';
          from_request =
            (if headers_contains (headers self) ''Authorization'' then
               (case headers_get (headers self) ''Authorization'' of
                  Some v \<Rightarrow> AList.update ''Authorization'' v hdrs
                | None \<Rightarrow> hdrs)
             else hdrs);
          hdrs' =
            (case obo_token of
               Some t \<Rightarrow>
                 if t \<noteq> [] then AList.update ''Authorization'' (''Bearer '' @ t) hdrs
                 else from_request
             | None \<Rightarrow> from_request)
      in \<lparr>url = u, req_headers = hdrs', req_method = method,
          data = (case body of
                    Some b \<Rightarrow> if b \<noteq> [] then Some b else None
                  | None \<Rightarrow> None)\<rparr>)"

text \<open>\<^verbatim>\<open>CustomHandler.proxy_api_request\<close> (lines 47 to 100): the check of the host,
  the call, and the three ways it ends.\<close>

definition proxy_api_request ::
  "world \<Rightarrow> request \<Rightarrow> string \<Rightarrow> string option \<Rightarrow> globals \<Rightarrow> handled \<times> globals" where
  "proxy_api_request w self method body g =
     (let h = host (databricks_config g)
      in if h = [] then
           ((send_error w self 500 (Some ''Databricks host not configured''), []), g)
         else
           let req = build_request h self method body
           in case urlopen w req of
                Response st rhs rbody \<Rightarrow>
                  ((wfile_write rbody
                      (end_headers self (relay_headers rhs (send_response w st None))),
                    [req]), g)
              | HTTPError code rsn fp \<Rightarrow>
                  ((wfile_write (case fp of Some b \<Rightarrow> b | None \<Rightarrow> ''{}'')
                      (end_headers self
                         (send_header ''Content-Type'' ''application/json''
                            (send_response w code None))),
                    [req]), g)
              | OtherError msg \<Rightarrow>
                  ((send_error w self 500 (Some (''Proxy error: '' @ msg)), [req]), g))"

subsection \<open>The config injector and the router\<close>

text \<open>The text of lines 135 to 146, encoded. The two pictographs of the console
  messages are the bytes E2 9C 85 and F0 9F 94 90.\<close>

definition config_js :: "string \<Rightarrow> string \<Rightarrow> string \<Rightarrow> bool \<Rightarrow> string \<Rightarrow> string" where
  "config_js databricks_host genie_space_id sql_warehouse_id is_obo client_id =
     ''\<newline>// Runtime configuration injected by server\<newline>''
     @ ''window.APP_CONFIG = {\<newline>''
     @ ''  databricksHost: '' @ [CHR 0x27] @ databricks_host @ [CHR 0x27] @ '',\<newline>''
     @ ''  genieSpaceId: '' @ [CHR 0x27] @ genie_space_id @ [CHR 0x27] @ '',\<newline>''
     @ ''  sqlWarehouseId: '' @ [CHR 0x27] @ sql_warehouse_id @ [CHR 0x27] @ '',\<newline>''
     @ ''  isOBO: '' @ (if is_obo then ''true'' else ''false'') @ '',\<newline>''
     @ ''  clientId: '' @ [CHR 0x27] @ client_id @ [CHR 0x27] @ ''\<newline>''
     @ ''};\<newline>''
     @ ''console.log('' @ [CHR 0x27, CHR 0xE2, CHR 0x9C, CHR 0x85]
     @ '' Runtime config loaded from server:'' @ [CHR 0x27] @ '', window.APP_CONFIG);\<newline>''
     @ ''console.log('' @ [CHR 0x27, CHR 0xF0, CHR 0x9F, CHR 0x94, CHR 0x90]
     @ '' Authentication mode:'' @ [CHR 0x27] @ '', window.APP_CONFIG.isOBO ? ''
     @ [CHR 0x27] @ ''OAuth/OBO'' @ [CHR 0x27] @ '' : '' @ [CHR 0x27] @ ''Token''
     @ [CHR 0x27] @ '');\<newline>''"

text \<open>\<^verbatim>\<open>CustomHandler.do_GET\<close> (lines 102 to 150).\<close>

definition do_GET :: "world \<Rightarrow> request \<Rightarrow> globals \<Rightarrow> result \<times> globals" where
  "do_GET w self g =
     (if startswith (path self) ''/api/'' then
        (case proxy_api_request w self ''GET'' None g of (out, g') \<Rightarrow> (Inr out, g'))
      else if path self = ''/config.js'' then
        (let r = end_headers self
                   (send_header ''Cache-Control'' ''no-cache, no-store, must-revalidate''
                      (send_header ''Content-type'' ''application/javascript''
                         (send_response w 200 None)));
             databricks_host = host (databricks_config g);
             genie_space_id = getenv w ''GENIE_SPACE_ID'' [];
             sql_warehouse_id = getenv w ''SQL_WAREHOUSE_ID'' [];
             client_id = getenv w ''DATABRICKS_CLIENT_ID'' [];
             is_obo = (client_id \<noteq> [])
         in (Inr (wfile_write
                    (config_js databricks_host genie_space_id sql_warehouse_id is_obo client_id)
                    r, []), g))
      else (Inr (super_do_GET w self, []), g))"

text \<open>The two lines that \<^verbatim>\<open>do_POST\<close>, \<^verbatim>\<open>do_PUT\<close> and \<^verbatim>\<open>do_PATCH\<close> share:
  \<^verbatim>\<open>content_length = int(self.headers.get('Content-Length', 0))\<close>, which raises on a
  value that is no integer, and
  \<^verbatim>\<open>body = self.rfile.read(content_length) if content_length > 0 else None\<close>.\<close>

definition read_body :: "request \<Rightarrow> py_error + string option" where
  "read_body self =
     (case (case headers_get (headers self) ''Content-Length'' of
              None \<Rightarrow> Inr 0
            | Some v \<Rightarrow> py_int v) of
        Inl e \<Rightarrow> Inl e
      | Inr content_length \<Rightarrow>
          Inr (if content_length > 0 then Some (take (nat content_length) (rfile self))
               else None))"

definition do_POST :: "world \<Rightarrow> request \<Rightarrow> globals \<Rightarrow> result \<times> globals" where
  "do_POST w self g =
     (if startswith (path self) ''/api/'' then
        (case read_body self of
           Inl e \<Rightarrow> (Inl e, g)
         | Inr body \<Rightarrow>
             (case proxy_api_request w self ''POST'' body g of (out, g') \<Rightarrow> (Inr out, g')))
      else (Inr (send_error w self 405 (Some ''Method not allowed''), []), g))"

definition do_DELETE :: "world \<Rightarrow> request \<Rightarrow> globals \<Rightarrow> result \<times> globals" where
  "do_DELETE w self g =
     (if startswith (path self) ''/api/'' then
        (case proxy_api_request w self ''DELETE'' None g of (out, g') \<Rightarrow> (Inr out, g'))
      else (Inr (send_error w self 405 (Some ''Method not allowed''), []), g))"

definition do_PUT :: "world \<Rightarrow> request \<Rightarrow> globals \<Rightarrow> result \<times> globals" where
  "do_PUT w self g =
     (if startswith (path self) ''/api/'' then
        (case read_body self of
           Inl e \<Rightarrow> (Inl e, g)
         | Inr body \<Rightarrow>
             (case proxy_api_request w self ''PUT'' body g of (out, g') \<Rightarrow> (Inr out, g')))
      else (Inr (send_error w self 405 (Some ''Method not allowed''), []), g))"

definition do_PATCH :: "world \<Rightarrow> request \<Rightarrow> globals \<Rightarrow> result \<times> globals" where
  "do_PATCH w self g =
     (if startswith (path self) ''/api/'' then
        (case read_body self of
           Inl e \<Rightarrow> (Inl e, g)
         | Inr body \<Rightarrow>
             (case proxy_api_request w self ''PATCH'' body g of (out, g') \<Rightarrow> (Inr out, g')))
      else (Inr (send_error w self 405 (Some ''Method not allowed''), []), g))"

text \<open>The inherited \<^verbatim>\<open>do_HEAD\<close> next to the others.\<close>

definition do_HEAD :: "world \<Rightarrow> request \<Rightarrow> globals \<Rightarrow> result \<times> globals" where
  "do_HEAD w self g = (Inr (do_HEAD_response w self, []), g)"

text \<open>The library's \<^verbatim>\<open>handle_one_request\<close> after \<^verbatim>\<open>parse_request\<close>: it calls the
  method \<^verbatim>\<open>do_\<close> followed by the command when the handler has one, and sends 501
  otherwise. \<^verbatim>\<open>CustomHandler\<close> has \<^verbatim>\<open>do_GET\<close>, \<^verbatim>\<open>do_POST\<close>, \<^verbatim>\<open>do_DELETE\<close>,
  \<^verbatim>\<open>do_PUT\<close>, \<^verbatim>\<open>do_PATCH\<close> and the inherited \<^verbatim>\<open>do_HEAD\<close>.\<close>

definition handle_one_request :: "world \<Rightarrow> request \<Rightarrow> globals \<Rightarrow> result \<times> globals" where
  "handle_one_request w self g =
     (if command self = ''GET'' then do_GET w self g
      else if command self = ''HEAD'' then do_HEAD w self g
      else if command self = ''POST'' then do_POST w self g
      else if command self = ''DELETE'' then do_DELETE w self g
      else if command self = ''PUT'' then do_PUT w self g
      else if command self = ''PATCH'' then do_PATCH w self g
      else (Inr (send_error w self 501
                   (Some (''Unsupported method ('' @ repr (command self) @ '')'')), []), g))"

text \<open>\<^verbatim>\<open>httpd.serve_forever()\<close> on a \<^verbatim>\<open>socketserver.TCPServer\<close>: one request after the
  other, each in the world it meets. An exception that escapes a handler ends that
  connection and the loop goes on.\<close>

fun serve_forever :: "globals \<Rightarrow> (world \<times> request) list \<Rightarrow> result list \<times> globals" where
  "serve_forever g [] = ([], g)"
| "serve_forever g ((w, self) # rest) =
     (case handle_one_request w self g of
        (res, g') \<Rightarrow>
          (case serve_forever g' rest of (ress, g'') \<Rightarrow> (res # ress, g'')))"

text \<open>The process: the module is loaded in the world \<open>w0\<close>, which assigns
  \<^verbatim>\<open>databricks_config\<close>, and then serves.\<close>

definition run_server :: "world \<Rightarrow> (world \<times> request) list \<Rightarrow> result list \<times> globals" where
  "run_server w0 conns = serve_forever (init_globals w0) conns"

subsection \<open>Observations\<close>

text \<open>What a caller sees of a handler's result: the status and the headers of the
  response, if one was sent, and the outbound requests made.\<close>

definition result_status :: "result \<Rightarrow> int option" where
  "result_status res = (case res of Inl e \<Rightarrow> None | Inr (r, calls) \<Rightarrow> Some (status r))"

definition result_headers :: "result \<Rightarrow> header list" where
  "result_headers res = (case res of Inl e \<Rightarrow> [] | Inr (r, calls) \<Rightarrow> sent_headers r)"

definition result_body :: "result \<Rightarrow> string" where
  "result_body res = (case res of Inl e \<Rightarrow> [] | Inr (r, calls) \<Rightarrow> wfile r)"

definition result_calls :: "result \<Rightarrow> outbound list" where
  "result_calls res = (case res of Inl e \<Rightarrow> [] | Inr (r, calls) \<Rightarrow> calls)"

text \<open>The value of the outbound \<^verbatim>\<open>Authorization\<close> header, if the request has one.\<close>

definition authorization :: "outbound \<Rightarrow> string option" where
  "authorization req = map_of (req_headers req) ''Authorization''"

text \<open>The headers of a list whose name is one of \<open>names\<close> (given in lower case),
  without regard to case.\<close>

definition named :: "string list \<Rightarrow> header list \<Rightarrow> header list" where
  "named names hs = filter (\<lambda>(k, v). lower k \<in> set names) hs"

text \<open>The headers that \<^verbatim>\<open>end_headers\<close> adds for a request.\<close>

definition no_cache :: "request \<Rightarrow> header list" where
  "no_cache self = sent_headers (end_headers self \<lparr>status = 0, reason = [], sent_headers = [], wfile = []\<rparr>)"

subsection \<open>A sample deployment\<close>

definition sample_responses :: "int \<rightharpoonup> string \<times> string" where
  "sample_responses =
     map_of [(200, (''OK'', ''Request fulfilled, document follows'')),
             (404, (''Not Found'', ''Nothing matches the given URI'')),
             (405, (''Method Not Allowed'', ''Specified method is invalid for this resource'')),
             (500, (''Internal Server Error'', ''Server got itself in trouble'')),
             (501, (''Not Implemented'', ''Server does not support this operation''))]"

text \<open>A backend that answers GET with a chunked 200 and everything else with a 404
  carrying a JSON body; a \<^verbatim>\<open>dist\<close> directory that holds \<^verbatim>\<open>app.js\<close> and
  \<^verbatim>\<open>index.html\<close>.\<close>

definition sample_backend :: "outbound \<Rightarrow> urlopen_result" where
  \<open>sample_backend req =
     (if req_method req = ''GET'' then
        Response 200 [(''Content-Type'', ''text/plain''), (''Connection'', ''close''),
                      (''TRANSFER-Encoding'', ''chunked''), (''X-Request-Id'', ''42'')]
          ''hello''
      else HTTPError 404 ''Not Found'' (Some ''{"error":"not found"}''))\<close>

definition sample_dist :: "request \<Rightarrow> send_head_case" where
  "sample_dist self =
     (if path self = ''/app.js''
      then Found ''text/javascript'' 5 ''Tue, 03 Nov 2026 09:00:00 GMT'' ''f();\<newline>''
      else if path self = ''/'' \<or> path self = ''/index.html''
      then Found ''text/html'' 15 ''Tue, 03 Nov 2026 09:00:00 GMT'' ''<!doctype html>''
      else NotFound)"

definition sample_world :: world where
  "sample_world =
     \<lparr>environ = map_of [(''DATABRICKS_HOST'', ''dbc.example.com''),
                        (''GENIE_SPACE_ID'', ''isOBO: true'')],
      DATABRICKS_SDK_AVAILABLE = False,
      SdkConfig = Raised [],
      urlopen = sample_backend,
      translate = sample_dist,
      responses = sample_responses,
      version_string = ''SimpleHTTP/0.6 Python/3.11.10'',
      date_time_string = ''Tue, 03 Nov 2026 17:31:00 GMT''\<rparr>"

definition sample_globals :: globals where
  "sample_globals = \<lparr>databricks_config = \<lparr>host = ''dbc.example.com'', token = []\<rparr>\<rparr>"


definition sample_request :: "string \<Rightarrow> string \<Rightarrow> header list \<Rightarrow> request" where
  \<open>sample_request cmd p hs = \<lparr>command = cmd, path = p, headers = hs, rfile = ''{"q":1}''\<rparr>\<close>

definition not_found_body :: string where
  \<open>not_found_body = ''{"error":"not found"}''\<close>

definition sample_get :: "header list \<Rightarrow> request" where
  "sample_get hs = sample_request ''GET'' ''/api/2.0/clusters/list?limit=5'' hs"

definition sample_post :: request where
  "sample_post =
     sample_request ''POST'' ''/api/2.0/sql/statements?wait=5%20s''
       [(''Content-Length'', ''7''), (''authorization'', ''Bearer pat'')]"



definition sample_delete :: request where
  "sample_delete =
     sample_request ''DELETE'' ''/api/2.0/clusters/1234'' [(''Content-Length'', ''7'')]"

section \<open>Properties\<close>

subsection \<open>What each response method leaves behind\<close>

lemma send_header_sel [simp]:
  "status (send_header k v r) = status r"
  "reason (send_header k v r) = reason r"
  "wfile (send_header k v r) = wfile r"
  "sent_headers (send_header k v r) = sent_headers r @ [(k, v)]"
  by (simp_all add: send_header_def)

lemma send_response_sel [simp]:
  "status (send_response w code m) = code"
  "sent_headers (send_response w code m)
     = [(''Server'', version_string w), (''Date'', date_time_string w)]"
  "wfile (send_response w code m) = []"
  "reason (send_response w code (Some msg)) = msg"
  by (simp_all add: send_response_def)

lemma wfile_write_sel [simp]:
  "status (wfile_write b r) = status r"
  "reason (wfile_write b r) = reason r"
  "sent_headers (wfile_write b r) = sent_headers r"
  "wfile (wfile_write b r) = wfile r @ b"
  by (simp_all add: wfile_write_def)

lemma end_headers_sel [simp]:
  "status (end_headers self r) = status r"
  "reason (end_headers self r) = reason r"
  "wfile (end_headers self r) = wfile r"
  "sent_headers (end_headers self r) = sent_headers r @ no_cache self"
  by (simp_all add: end_headers_def no_cache_def)

lemma no_cache_eq:
  "no_cache self =
     (if endswith (path self) ''.html'' \<or> path self = ''/'' \<or> path self = ''/index.html''
      then [(''Cache-Control'', ''no-cache, no-store, must-revalidate''),
            (''Pragma'', ''no-cache''), (''Expires'', ''0'')]
      else [])"
  by (simp add: no_cache_def end_headers_def)

lemma send_error_status [simp]: "status (send_error w self code m) = code"
  by (simp add: send_error_def Let_def split: prod.splits option.splits)

lemma send_error_reason [simp]: "reason (send_error w self code (Some msg)) = msg"
  by (simp add: send_error_def Let_def split: prod.splits option.splits)

lemma relay_headers_sel [simp]:
  "status (relay_headers hs r) = status r"
  "reason (relay_headers hs r) = reason r"
  "wfile (relay_headers hs r) = wfile r"
  by (induction hs r rule: relay_headers.induct) simp_all

lemma sent_headers_relay:
  "sent_headers (relay_headers hs r)
     = sent_headers r
       @ filter (\<lambda>(k, v). lower k \<notin> set [''transfer-encoding'', ''connection'']) hs"
  by (induction hs r rule: relay_headers.induct) simp_all

lemma result_Inr [simp]:
  "result_status (Inr x) = Some (status (fst x))"
  "result_headers (Inr x) = sent_headers (fst x)"
  "result_body (Inr x) = wfile (fst x)"
  "result_calls (Inr x) = snd x"
  by (simp_all add: result_status_def result_headers_def result_body_def result_calls_def
        split: prod.splits)

lemma result_Inl [simp]:
  "result_status (Inl e) = None"
  "result_headers (Inl e) = []"
  "result_body (Inl e) = []"
  "result_calls (Inl e) = []"
  by (simp_all add: result_status_def result_headers_def result_body_def result_calls_def)

subsection \<open>Header names\<close>

lemma lower_literals [simp]:
  "lower ''Server'' = ''server''"
  "lower ''Date'' = ''date''"
  "lower ''Connection'' = ''connection''"
  "lower ''Content-Type'' = ''content-type''"
  "lower ''Content-type'' = ''content-type''"
  "lower ''Content-Length'' = ''content-length''"
  "lower ''Cache-Control'' = ''cache-control''"
  "lower ''Pragma'' = ''pragma''"
  "lower ''Expires'' = ''expires''"
  "lower ''Location'' = ''location''"
  "lower ''Last-Modified'' = ''last-modified''"
  by code_simp+

lemma named_Nil [simp]: "named ns [] = []"
  by (simp add: named_def)

lemma named_Cons [simp]:
  "named ns ((k, v) # hs) = (if lower k \<in> set ns then (k, v) # named ns hs else named ns hs)"
  by (simp add: named_def)

lemma named_append [simp]: "named ns (xs @ ys) = named ns xs @ named ns ys"
  by (simp add: named_def)

lemma named_no_cache_hop [simp]:
  "named [''transfer-encoding'', ''connection''] (no_cache self) = []"
  by (simp add: no_cache_eq)

lemma named_no_cache_ctype [simp]:
  "named [''content-type''] (no_cache self) = []"
  by (simp add: no_cache_eq)

lemma named_hop_filter [simp]:
  "named [''transfer-encoding'', ''connection'']
     (filter (\<lambda>(k, v). lower k \<noteq> ''transfer-encoding'' \<and> lower k \<noteq> ''connection'') hs) = []"
  by (induction hs) auto

lemma headers_contains_iff: "headers_contains hs name \<longleftrightarrow> headers_get hs name \<noteq> None"
  by (induction hs) (auto simp: headers_contains_def)

subsection \<open>The proxy's outbound request\<close>

lemma proxy_globals [simp]: "snd (proxy_api_request w self method body g) = g"
  by (simp add: proxy_api_request_def Let_def split: urlopen_result.splits)

lemma proxy_calls:
  "host (databricks_config g) \<noteq> [] \<Longrightarrow>
   snd (fst (proxy_api_request w self method body g))
     = [build_request (host (databricks_config g)) self method body]"
  by (simp add: proxy_api_request_def Let_def split: urlopen_result.splits)

lemma proxy_unconfigured:
  "host (databricks_config g) = [] \<Longrightarrow>
   fst (proxy_api_request w self method body g)
     = (send_error w self 500 (Some ''Databricks host not configured''), [])"
  by (simp add: proxy_api_request_def)

lemma proxy_configured:
  "snd (fst (proxy_api_request w self method body g)) = [req] \<Longrightarrow>
   host (databricks_config g) \<noteq> []
   \<and> req = build_request (host (databricks_config g)) self method body"
  by (cases "host (databricks_config g) = []") (simp_all add: proxy_calls proxy_unconfigured)

lemma authorization_build:
  "authorization (build_request h self method body) =
     (case headers_get (headers self) ''X-Forwarded-Access-Token'' of
        Some t \<Rightarrow> if t \<noteq> [] then Some (''Bearer '' @ t)
                  else headers_get (headers self) ''Authorization''
      | None \<Rightarrow> headers_get (headers self) ''Authorization'')"
  by (simp add: build_request_def authorization_def Let_def headers_contains_iff
           split: option.splits)


subsection \<open>Credential selection\<close>

text \<open>
  Claim C1, as amended. When the host is configured, \<^verbatim>\<open>proxy_api_request\<close> makes one
  outbound request, and its \<^verbatim>\<open>Authorization\<close> header is chosen in this order: if the
  inbound request has an \<^verbatim>\<open>X-Forwarded-Access-Token\<close> header whose value \<open>t\<close> is not
  empty, it is \<^verbatim>\<open>Bearer t\<close>, whatever \<^verbatim>\<open>Authorization\<close> header came in; otherwise
  (no such header, or an empty value) it is the value of the inbound \<^verbatim>\<open>Authorization\<close>
  header, unchanged, if there is one; otherwise the outbound request has no
  \<^verbatim>\<open>Authorization\<close> header. Names are matched without regard to case and the first
  header of a name gives its value.
\<close>

theorem authorization_priority:
  assumes "host (databricks_config g) \<noteq> []"
  shows "map authorization (snd (fst (proxy_api_request w self method body g))) =
     [case headers_get (headers self) ''X-Forwarded-Access-Token'' of
        Some t \<Rightarrow> if t \<noteq> [] then Some (''Bearer '' @ t)
                  else headers_get (headers self) ''Authorization''
      | None \<Rightarrow> headers_get (headers self) ''Authorization'']"
  by (simp add: proxy_calls [OF assms] authorization_build)

text \<open>The three branches, on a token with an \<^verbatim>\<open>Authorization\<close> header beside it, on
  an \<^verbatim>\<open>Authorization\<close> header alone, and on neither.\<close>

theorem authorization_priority_witness:
  "host (databricks_config sample_globals) \<noteq> []
   \<and> map authorization (snd (fst (proxy_api_request sample_world
         (sample_get [(''x-forwarded-access-token'', ''tok''), (''Authorization'', ''Basic abc'')])
         ''GET'' None sample_globals))) = [Some ''Bearer tok'']
   \<and> map authorization (snd (fst (proxy_api_request sample_world
         (sample_get [(''AUTHORIZATION'', ''Basic abc'')])
         ''GET'' None sample_globals))) = [Some ''Basic abc'']
   \<and> map authorization (snd (fst (proxy_api_request sample_world
         (sample_get [(''Accept'', ''*/*'')])
         ''GET'' None sample_globals))) = [None]"
proof -
  have h: "host (databricks_config sample_globals) \<noteq> []"
    by (simp add: sample_globals_def)
  have e1: "(case headers_get
               (headers (sample_get [(''x-forwarded-access-token'', ''tok''),
                                     (''Authorization'', ''Basic abc'')]))
               ''X-Forwarded-Access-Token'' of
              Some t \<Rightarrow>
                if t \<noteq> [] then Some (''Bearer '' @ t)
                else headers_get
                       (headers (sample_get [(''x-forwarded-access-token'', ''tok''),
                                             (''Authorization'', ''Basic abc'')]))
                       ''Authorization''
            | None \<Rightarrow>
                headers_get
                  (headers (sample_get [(''x-forwarded-access-token'', ''tok''),
                                        (''Authorization'', ''Basic abc'')]))
                  ''Authorization'') = Some ''Bearer tok''"
    by code_simp
  have e2: "(case headers_get (headers (sample_get [(''AUTHORIZATION'', ''Basic abc'')]))
               ''X-Forwarded-Access-Token'' of
              Some t \<Rightarrow>
                if t \<noteq> [] then Some (''Bearer '' @ t)
                else headers_get (headers (sample_get [(''AUTHORIZATION'', ''Basic abc'')]))
                       ''Authorization''
            | None \<Rightarrow>
                headers_get (headers (sample_get [(''AUTHORIZATION'', ''Basic abc'')]))
                  ''Authorization'') = Some ''Basic abc''"
    by code_simp
  have e3: "(case headers_get (headers (sample_get [(''Accept'', ''*/*'')]))
               ''X-Forwarded-Access-Token'' of
              Some t \<Rightarrow>
                if t \<noteq> [] then Some (''Bearer '' @ t)
                else headers_get (headers (sample_get [(''Accept'', ''*/*'')])) ''Authorization''
            | None \<Rightarrow>
                headers_get (headers (sample_get [(''Accept'', ''*/*'')])) ''Authorization'')
            = None"
    by code_simp
  show ?thesis
    using h
      authorization_priority [OF h, of sample_world
        "sample_get [(''x-forwarded-access-token'', ''tok''), (''Authorization'', ''Basic abc'')]"
        "''GET''" None]
      authorization_priority [OF h, of sample_world
        "sample_get [(''AUTHORIZATION'', ''Basic abc'')]" "''GET''" None]
      authorization_priority [OF h, of sample_world
        "sample_get [(''Accept'', ''*/*'')]" "''GET''" None]
    by (simp only: e1 e2 e3 simp_thms)
qed

text \<open>The claim as first stated gives \<^verbatim>\<open>Bearer T\<close> for every request that carries the
  token header with value \<open>T\<close>. A request whose token header is empty and whose
  \<^verbatim>\<open>Authorization\<close> header is \<^verbatim>\<open>Basic abc\<close> goes out with \<^verbatim>\<open>Basic abc\<close>, not
  with \<^verbatim>\<open>Bearer\<close> followed by the empty token.\<close>

theorem empty_forwarded_token_counterexample:
  "headers_get
     (headers (sample_get [(''X-Forwarded-Access-Token'', []), (''Authorization'', ''Basic abc'')]))
     ''X-Forwarded-Access-Token'' = Some []
   \<and> map authorization (snd (fst (proxy_api_request sample_world
         (sample_get [(''X-Forwarded-Access-Token'', []), (''Authorization'', ''Basic abc'')])
         ''GET'' None sample_globals))) = [Some ''Basic abc'']
   \<and> map authorization (snd (fst (proxy_api_request sample_world
         (sample_get [(''X-Forwarded-Access-Token'', []), (''Authorization'', ''Basic abc'')])
         ''GET'' None sample_globals))) \<noteq> [Some (''Bearer '' @ [])]"
  by code_simp

subsection \<open>The unconfigured host\<close>




subsection \<open>The outbound URL\<close>

text \<open>
  Claim C4. When the host is configured, the URL of the outbound request is
  \<^verbatim>\<open>https://\<close> followed by the configured host and by the request path as received,
  query string included; nothing is altered or encoded again.
\<close>

theorem outbound_url:
  assumes "host (databricks_config g) \<noteq> []"
  shows "map url (snd (fst (proxy_api_request w self method body g)))
           = [''https://'' @ host (databricks_config g) @ path self]"
  by (simp add: proxy_calls [OF assms] build_request_def Let_def)

theorem outbound_url_witness:
  "host (databricks_config sample_globals) \<noteq> []
   \<and> map url (snd (fst (proxy_api_request sample_world sample_post ''POST''
                          (Some (rfile sample_post)) sample_globals)))
       = [''https://dbc.example.com/api/2.0/sql/statements?wait=5%20s'']"
proof -
  have h: "host (databricks_config sample_globals) \<noteq> []"
    by (simp add: sample_globals_def)
  have e: "''https://'' @ host (databricks_config sample_globals) @ path sample_post
             = ''https://dbc.example.com/api/2.0/sql/statements?wait=5%20s''"
    by code_simp
  show ?thesis
    using h outbound_url [OF h, of sample_world sample_post "''POST''" "Some (rfile sample_post)"]
    by (simp only: e simp_thms)
qed

subsection \<open>Backend responses\<close>

text \<open>
  Claim C3. When the host is configured and the backend answers the outbound request
  with an HTTP error status (\<^verbatim>\<open>urlopen\<close> raises \<^verbatim>\<open>HTTPError\<close> with the error response
  attached), the proxy's response has the backend's status code, its body is the
  backend's error body byte for byte, and its one content-type header is
  \<^verbatim>\<open>Content-Type: application/json\<close>.
\<close>

theorem http_error_relayed:
  assumes "snd (fst (proxy_api_request w self method body g)) = [req]"
      and "urlopen w req = HTTPError code rsn (Some b)"
  shows "status (fst (fst (proxy_api_request w self method body g))) = code
       \<and> wfile (fst (fst (proxy_api_request w self method body g))) = b
       \<and> named [''content-type'']
            (sent_headers (fst (fst (proxy_api_request w self method body g))))
           = [(''Content-Type'', ''application/json'')]"
proof -
  from proxy_configured [OF assms(1)]
  have h: "host (databricks_config g) \<noteq> []"
    and r: "urlopen w (build_request (host (databricks_config g)) self method body)
              = HTTPError code rsn (Some b)"
    using assms(2) by simp_all
  show ?thesis using h r
    by (simp add: proxy_api_request_def Let_def)
qed

text \<open>The backend's 404 with the body \<^verbatim>\<open>{"error":"not found"}\<close> comes back as that
  status and that body.\<close>

theorem http_error_relayed_witness:
  "snd (fst (proxy_api_request sample_world sample_post ''POST'' (Some (rfile sample_post))
              sample_globals))
     = [build_request ''dbc.example.com'' sample_post ''POST'' (Some (rfile sample_post))]
   \<and> urlopen sample_world
         (build_request ''dbc.example.com'' sample_post ''POST'' (Some (rfile sample_post)))
       = HTTPError 404 ''Not Found'' (Some not_found_body)
   \<and> status (fst (fst (proxy_api_request sample_world sample_post ''POST''
                         (Some (rfile sample_post)) sample_globals))) = 404
   \<and> wfile (fst (fst (proxy_api_request sample_world sample_post ''POST''
                        (Some (rfile sample_post)) sample_globals))) = not_found_body"
proof -
  have a: "snd (fst (proxy_api_request sample_world sample_post ''POST''
                       (Some (rfile sample_post)) sample_globals))
             = [build_request ''dbc.example.com'' sample_post ''POST'' (Some (rfile sample_post))]"
    by code_simp
  have b: "urlopen sample_world
             (build_request ''dbc.example.com'' sample_post ''POST'' (Some (rfile sample_post)))
           = HTTPError 404 ''Not Found'' (Some not_found_body)"
    by code_simp
  from http_error_relayed [OF a b] a b show ?thesis by blast
qed

text \<open>
  Claim C5. When the backend's response is a success (\<^verbatim>\<open>urlopen\<close> returns), the
  relayed response has the backend's status code and the backend's body byte for byte;
  its headers are \<^verbatim>\<open>Server\<close> and \<^verbatim>\<open>Date\<close>, then every backend header in order and
  unchanged apart from those named \<^verbatim>\<open>Transfer-Encoding\<close> or \<^verbatim>\<open>Connection\<close> (in any
  case), then what \<^verbatim>\<open>end_headers\<close> adds; no header of the relayed response is named
  \<^verbatim>\<open>Transfer-Encoding\<close> or \<^verbatim>\<open>Connection\<close>.
\<close>

theorem success_relayed:
  assumes "snd (fst (proxy_api_request w self method body g)) = [req]"
      and "urlopen w req = Response st rhs rbody"
  shows "status (fst (fst (proxy_api_request w self method body g))) = st
       \<and> wfile (fst (fst (proxy_api_request w self method body g))) = rbody
       \<and> sent_headers (fst (fst (proxy_api_request w self method body g)))
           = [(''Server'', version_string w), (''Date'', date_time_string w)]
             @ filter (\<lambda>(k, v). lower k \<notin> set [''transfer-encoding'', ''connection'']) rhs
             @ no_cache self
       \<and> named [''transfer-encoding'', ''connection'']
            (sent_headers (fst (fst (proxy_api_request w self method body g)))) = []"
proof -
  from proxy_configured [OF assms(1)]
  have h: "host (databricks_config g) \<noteq> []"
    and r: "urlopen w (build_request (host (databricks_config g)) self method body)
              = Response st rhs rbody"
    using assms(2) by simp_all
  show ?thesis using h r
    by (simp add: proxy_api_request_def Let_def sent_headers_relay)
qed

theorem success_relayed_witness:
  "snd (fst (proxy_api_request sample_world (sample_get []) ''GET'' None sample_globals))
     = [build_request ''dbc.example.com'' (sample_get []) ''GET'' None]
   \<and> urlopen sample_world (build_request ''dbc.example.com'' (sample_get []) ''GET'' None)
       = Response 200 [(''Content-Type'', ''text/plain''), (''Connection'', ''close''),
                       (''TRANSFER-Encoding'', ''chunked''), (''X-Request-Id'', ''42'')] ''hello''
   \<and> status (fst (fst (proxy_api_request sample_world (sample_get []) ''GET'' None
                         sample_globals))) = 200
   \<and> wfile (fst (fst (proxy_api_request sample_world (sample_get []) ''GET'' None
                        sample_globals))) = ''hello''
   \<and> sent_headers (fst (fst (proxy_api_request sample_world (sample_get []) ''GET'' None
                               sample_globals)))
       = [(''Server'', ''SimpleHTTP/0.6 Python/3.11.10''),
          (''Date'', ''Tue, 03 Nov 2026 17:31:00 GMT''),
          (''Content-Type'', ''text/plain''), (''X-Request-Id'', ''42'')]"
proof -
  have a: "snd (fst (proxy_api_request sample_world (sample_get []) ''GET'' None sample_globals))
             = [build_request ''dbc.example.com'' (sample_get []) ''GET'' None]"
    by code_simp
  have b: "urlopen sample_world (build_request ''dbc.example.com'' (sample_get []) ''GET'' None)
           = Response 200 [(''Content-Type'', ''text/plain''), (''Connection'', ''close''),
                           (''TRANSFER-Encoding'', ''chunked''), (''X-Request-Id'', ''42'')] ''hello''"
    by code_simp
  have e: "[(''Server'', version_string sample_world), (''Date'', date_time_string sample_world)]
             @ filter (\<lambda>(k, v). lower k \<notin> set [''transfer-encoding'', ''connection''])
                 [(''Content-Type'', ''text/plain''), (''Connection'', ''close''),
                  (''TRANSFER-Encoding'', ''chunked''), (''X-Request-Id'', ''42'')]
             @ no_cache (sample_get [])
           = [(''Server'', ''SimpleHTTP/0.6 Python/3.11.10''),
              (''Date'', ''Tue, 03 Nov 2026 17:31:00 GMT''),
              (''Content-Type'', ''text/plain''), (''X-Request-Id'', ''42'')]"
    by code_simp
  from success_relayed [OF a b] a b e show ?thesis by (simp only: simp_thms)
qed

subsection \<open>DELETE carries no body\<close>

lemma end_headers_rfile [simp]:
  "end_headers (self\<lparr>rfile := b\<rparr>) r = end_headers self r"
  by (simp add: end_headers_def)

lemma send_error_rfile [simp]:
  "send_error w (self\<lparr>rfile := b\<rparr>) code m = send_error w self code m"
  by (simp add: send_error_def Let_def split: prod.splits option.splits)

lemma build_request_rfile [simp]:
  "build_request h (self\<lparr>rfile := b\<rparr>) method body = build_request h self method body"
  by (simp add: build_request_def Let_def split: option.splits)

lemma proxy_rfile_unread [simp]:
  "proxy_api_request w (self\<lparr>rfile := b\<rparr>) method body g
     = proxy_api_request w self method body g"
  by (simp add: proxy_api_request_def Let_def split: urlopen_result.splits)

text \<open>
  Claim C10. A DELETE request on a path under \<^verbatim>\<open>/api/\<close> is handed to
  \<^verbatim>\<open>proxy_api_request\<close> with no body argument, so the outbound request (there is one
  when the host is configured) has no data, and the result is the same whatever bytes
  the inbound request carries after its headers: the handler never reads them.
\<close>

theorem delete_carries_no_body:
  assumes "command self = ''DELETE''" and "startswith (path self) ''/api/''"
  shows "fst (handle_one_request w self g)
           = Inr (fst (proxy_api_request w self ''DELETE'' None g))
       \<and> map data (result_calls (fst (handle_one_request w self g)))
           = (if host (databricks_config g) = [] then [] else [None])
       \<and> fst (handle_one_request w (self\<lparr>rfile := b\<rparr>) g) = fst (handle_one_request w self g)"
proof -
  have d: "fst (handle_one_request w s g) = Inr (fst (proxy_api_request w s ''DELETE'' None g))"
    if "command s = ''DELETE''" "startswith (path s) ''/api/''" for s
    using that by (simp add: handle_one_request_def do_DELETE_def split: prod.splits)
  have c: "map data (snd (fst (proxy_api_request w self ''DELETE'' None g)))
             = (if host (databricks_config g) = [] then [] else [None])"
    by (simp add: proxy_calls proxy_unconfigured build_request_def Let_def)
  have "fst (handle_one_request w (self\<lparr>rfile := b\<rparr>) g)
          = Inr (fst (proxy_api_request w (self\<lparr>rfile := b\<rparr>) ''DELETE'' None g))"
    using assms by (intro d) simp_all
  then show ?thesis
    using d [OF assms] c by simp
qed

theorem delete_carries_no_body_witness:
  "command sample_delete = ''DELETE'' \<and> startswith (path sample_delete) ''/api/''
   \<and> rfile sample_delete \<noteq> []
   \<and> map data (result_calls (fst (handle_one_request sample_world sample_delete sample_globals)))
       = [None]
   \<and> fst (handle_one_request sample_world (sample_delete\<lparr>rfile := []\<rparr>) sample_globals)
       = fst (handle_one_request sample_world sample_delete sample_globals)"
proof -
  have h: "command sample_delete = ''DELETE''" by code_simp
  have s: "startswith (path sample_delete) ''/api/''" by code_simp
  have r: "rfile sample_delete \<noteq> []" by code_simp
  have e: "(if host (databricks_config sample_globals) = [] then [] else [None :: string option]) = [None]"
    by code_simp
  note t = delete_carries_no_body [OF h s, of sample_world sample_globals "[]", unfolded e]
  show ?thesis using t h s r by blast
qed

subsection \<open>The configuration is fixed at start\<close>

lemma proxy_globals_eq:
  "proxy_api_request w self method body g = (out, g') \<Longrightarrow> g' = g"
  by (metis proxy_globals snd_conv)

lemma do_globals [simp]:
  "snd (do_GET w self g) = g"
  "snd (do_HEAD w self g) = g"
  "snd (do_POST w self g) = g"
  "snd (do_DELETE w self g) = g"
  "snd (do_PUT w self g) = g"
  "snd (do_PATCH w self g) = g"
  by (auto simp: do_GET_def do_HEAD_def do_POST_def do_DELETE_def do_PUT_def do_PATCH_def
        Let_def split: prod.splits sum.splits dest: proxy_globals_eq)

lemma handle_globals [simp]: "snd (handle_one_request w self g) = g"
  by (simp add: handle_one_request_def)

lemma serve_forever_frame:
  "serve_forever g conns = (map (\<lambda>(w, self). fst (handle_one_request w self g)) conns, g)"
proof (induction conns)
  case Nil
  show ?case by simp
next
  case (Cons c conns)
  obtain w self where c: "c = (w, self)" by (cases c)
  obtain res where res: "handle_one_request w self g = (res, g)"
    by (metis handle_globals prod.collapse)
  then show ?case using Cons.IH by (simp add: c)
qed

text \<open>
  Claim C9. The configuration is computed once, by \<^verbatim>\<open>get_databricks_config\<close> when
  the module is loaded, and no handler changes it: after any sequence of requests the
  globals are those of the start, and every request is answered as it is on the
  configuration of the start.
\<close>

theorem config_fixed_at_start:
  "snd (run_server w0 conns) = init_globals w0
   \<and> databricks_config (snd (run_server w0 conns)) = get_databricks_config w0
   \<and> fst (run_server w0 conns)
       = map (\<lambda>(w, self). fst (handle_one_request w self (init_globals w0))) conns"
  by (simp add: run_server_def serve_forever_frame init_globals_def)

subsection \<open>Methods\<close>

text \<open>
  Claim C7, as amended. A POST, PUT, PATCH or DELETE request on a path that does not
  start with \<^verbatim>\<open>/api/\<close> is answered 405 \<^verbatim>\<open>Method not allowed\<close>. A request whose
  method is none of GET, HEAD, POST, PUT, PATCH and DELETE is answered 501 on every
  path, under \<^verbatim>\<open>/api/\<close> or not, and nothing is forwarded. A HEAD request is answered
  by the static file server on every path, and nothing is forwarded.
\<close>

theorem method_dispatch:
  "(command self \<in> set [''POST'', ''PUT'', ''PATCH'', ''DELETE'']
      \<and> \<not> startswith (path self) ''/api/''
    \<longrightarrow> fst (handle_one_request w self g)
          = Inr (send_error w self 405 (Some ''Method not allowed''), [])
        \<and> result_status (fst (handle_one_request w self g)) = Some 405)
   \<and> (command self \<notin> set [''GET'', ''HEAD'', ''POST'', ''PUT'', ''PATCH'', ''DELETE'']
    \<longrightarrow> result_status (fst (handle_one_request w self g)) = Some 501
        \<and> result_calls (fst (handle_one_request w self g)) = [])
   \<and> (command self = ''HEAD''
    \<longrightarrow> fst (handle_one_request w self g) = Inr (fst (send_head w self), []))"
  by (auto simp: handle_one_request_def do_POST_def do_PUT_def do_PATCH_def do_DELETE_def
        do_HEAD_def do_HEAD_response_def)

theorem method_dispatch_witness:
  "command (sample_request ''POST'' ''/favicon.ico'' [])
     \<in> set [''POST'', ''PUT'', ''PATCH'', ''DELETE'']
   \<and> \<not> startswith (path (sample_request ''POST'' ''/favicon.ico'' [])) ''/api/''
   \<and> result_status (fst (handle_one_request sample_world
         (sample_request ''POST'' ''/favicon.ico'' []) sample_globals)) = Some 405
   \<and> command (sample_request ''OPTIONS'' ''/api/2.0/clusters/list'' [])
       \<notin> set [''GET'', ''HEAD'', ''POST'', ''PUT'', ''PATCH'', ''DELETE'']
   \<and> result_status (fst (handle_one_request sample_world
         (sample_request ''OPTIONS'' ''/api/2.0/clusters/list'' []) sample_globals)) = Some 501
   \<and> result_calls (fst (handle_one_request sample_world
         (sample_request ''OPTIONS'' ''/api/2.0/clusters/list'' []) sample_globals)) = []
   \<and> command (sample_request ''HEAD'' ''/api/2.0/clusters/list'' []) = ''HEAD''
   \<and> fst (handle_one_request sample_world
         (sample_request ''HEAD'' ''/api/2.0/clusters/list'' []) sample_globals)
       = Inr (fst (send_head sample_world (sample_request ''HEAD'' ''/api/2.0/clusters/list'' [])),
              [])"
proof -
  have a: "command (sample_request ''POST'' ''/favicon.ico'' [])
             \<in> set [''POST'', ''PUT'', ''PATCH'', ''DELETE'']
           \<and> \<not> startswith (path (sample_request ''POST'' ''/favicon.ico'' [])) ''/api/''"
    by code_simp
  have b: "command (sample_request ''OPTIONS'' ''/api/2.0/clusters/list'' [])
             \<notin> set [''GET'', ''HEAD'', ''POST'', ''PUT'', ''PATCH'', ''DELETE'']"
    by code_simp
  have c: "command (sample_request ''HEAD'' ''/api/2.0/clusters/list'' []) = ''HEAD''"
    by code_simp
  from method_dispatch [of "sample_request ''POST'' ''/favicon.ico'' []" sample_world sample_globals]
    method_dispatch [of "sample_request ''OPTIONS'' ''/api/2.0/clusters/list'' []" sample_world
      sample_globals]
    method_dispatch [of "sample_request ''HEAD'' ''/api/2.0/clusters/list'' []" sample_world
      sample_globals]
    a b c
  show ?thesis by blast
qed

text \<open>The claim as first stated gives 405 to every method outside GET, POST, PUT, PATCH
  and DELETE on a path under \<^verbatim>\<open>/api/\<close>, and to every method but GET elsewhere. An
  OPTIONS request under \<^verbatim>\<open>/api/\<close> gets 501, and a HEAD request for a missing file
  outside \<^verbatim>\<open>/api/\<close> gets 404.\<close>

theorem unsupported_method_counterexample:
  "startswith (path (sample_request ''OPTIONS'' ''/api/2.0/clusters/list'' [])) ''/api/''
   \<and> result_status (fst (handle_one_request sample_world
        (sample_request ''OPTIONS'' ''/api/2.0/clusters/list'' []) sample_globals)) = Some 501
   \<and> \<not> startswith (path (sample_request ''HEAD'' ''/favicon.ico'' [])) ''/api/''
   \<and> result_status (fst (handle_one_request sample_world
        (sample_request ''HEAD'' ''/favicon.ico'' []) sample_globals)) = Some 404"
  by code_simp

subsection \<open>Cache headers\<close>

lemma send_error_no_cache:
  "set (no_cache self) \<subseteq> set (sent_headers (send_error w self code m))"
  by (auto simp: send_error_def Let_def split: prod.splits option.splits)

lemma send_head_no_cache:
  "set (no_cache self) \<subseteq> set (sent_headers (fst (send_head w self)))"
  using send_error_no_cache [of self w]
  by (auto simp: send_head_def split: send_head_case.splits)

lemma super_do_GET_headers:
  "sent_headers (super_do_GET w self) = sent_headers (fst (send_head w self))"
  by (cases "send_head w self") (simp add: super_do_GET_def split: option.splits)

lemma super_do_GET_no_cache:
  "set (no_cache self) \<subseteq> set (sent_headers (super_do_GET w self))"
  by (simp add: super_do_GET_headers send_head_no_cache)

lemma proxy_no_cache:
  "set (no_cache self) \<subseteq> set (sent_headers (fst (fst (proxy_api_request w self method body g))))"
  using send_error_no_cache [of self w]
  by (auto simp: proxy_api_request_def Let_def split: urlopen_result.splits)

lemma handle_no_cache:
  assumes "fst (handle_one_request w self g) = Inr (r, calls)"
  shows "set (no_cache self) \<subseteq> set (sent_headers r)"
proof -
  have p: "set (no_cache self) \<subseteq> set (sent_headers r)"
    if "proxy_api_request w self m b g = ((r, calls), g')" for m b g'
    using proxy_no_cache [of self w m b g] that by simp
  show ?thesis
    using assms send_error_no_cache [of self w] super_do_GET_no_cache [of self w]
      send_head_no_cache [of self w]
    by (auto simp: handle_one_request_def do_GET_def do_HEAD_def do_POST_def do_DELETE_def
          do_PUT_def do_PATCH_def do_HEAD_response_def Let_def
          split: if_splits prod.splits sum.splits dest: p)
qed

lemma send_error_named:
  "named [''cache-control'', ''pragma'', ''expires''] (sent_headers (send_error w self code m))
     = named [''cache-control'', ''pragma'', ''expires''] (no_cache self)"
  by (simp add: send_error_def Let_def split: prod.splits option.splits)

lemma send_head_named:
  "named [''cache-control'', ''pragma'', ''expires''] (sent_headers (fst (send_head w self)))
     = named [''cache-control'', ''pragma'', ''expires''] (no_cache self)"
  by (simp add: send_head_def send_error_named split: send_head_case.splits)

text \<open>
  Claim C8. Every response to a request whose path ends in \<^verbatim>\<open>.html\<close> or is \<^verbatim>\<open>/\<close>
  carries the three headers \<^verbatim>\<open>Cache-Control: no-cache, no-store, must-revalidate\<close>,
  \<^verbatim>\<open>Pragma: no-cache\<close> and \<^verbatim>\<open>Expires: 0\<close>, whichever branch of the router produced
  it (proxy, static files, an error page). A GET request for \<^verbatim>\<open>/app.js\<close> is answered,
  and its response has no header named \<^verbatim>\<open>Cache-Control\<close>, \<^verbatim>\<open>Pragma\<close> or
  \<^verbatim>\<open>Expires\<close>.
\<close>

theorem html_never_cached:
  "((endswith (path self) ''.html'' \<or> path self = ''/'')
      \<and> fst (handle_one_request w self g) = Inr (r, calls)
    \<longrightarrow> (''Cache-Control'', ''no-cache, no-store, must-revalidate'') \<in> set (sent_headers r)
        \<and> (''Pragma'', ''no-cache'') \<in> set (sent_headers r)
        \<and> (''Expires'', ''0'') \<in> set (sent_headers r))
   \<and> (command self = ''GET'' \<and> path self = ''/app.js''
    \<longrightarrow> result_status (fst (handle_one_request w self g)) \<noteq> None
        \<and> named [''cache-control'', ''pragma'', ''expires'']
             (result_headers (fst (handle_one_request w self g))) = [])"
proof (intro conjI impI)
  assume a: "(endswith (path self) ''.html'' \<or> path self = ''/'')
      \<and> fst (handle_one_request w self g) = Inr (r, calls)"
  then have n: "no_cache self = [(''Cache-Control'', ''no-cache, no-store, must-revalidate''),
            (''Pragma'', ''no-cache''), (''Expires'', ''0'')]"
    by (auto simp: no_cache_eq)
  from a have "set (no_cache self) \<subseteq> set (sent_headers r)"
    using handle_no_cache by blast
  with n show "(''Cache-Control'', ''no-cache, no-store, must-revalidate'') \<in> set (sent_headers r)"
    and "(''Pragma'', ''no-cache'') \<in> set (sent_headers r)"
    and "(''Expires'', ''0'') \<in> set (sent_headers r)"
    by simp_all
next
  assume b: "command self = ''GET'' \<and> path self = ''/app.js''"
  then have n: "no_cache self = []"
    by (simp add: no_cache_eq endswith_def)
  from b have h: "fst (handle_one_request w self g) = Inr (super_do_GET w self, [])"
    by (simp add: handle_one_request_def do_GET_def startswith_def)
  show "result_status (fst (handle_one_request w self g)) \<noteq> None"
    by (simp add: h)
  have "named [''cache-control'', ''pragma'', ''expires''] (sent_headers (super_do_GET w self)) = []"
    using send_head_named [of w self] n by (simp add: super_do_GET_headers)
  then show "named [''cache-control'', ''pragma'', ''expires'']
             (result_headers (fst (handle_one_request w self g))) = []"
    by (simp add: h)
qed

theorem html_never_cached_witness:
  "endswith (path (sample_request ''GET'' ''/index.html'' [])) ''.html''
   \<and> result_status (fst (handle_one_request sample_world
         (sample_request ''GET'' ''/index.html'' []) sample_globals)) = Some 200
   \<and> (''Cache-Control'', ''no-cache, no-store, must-revalidate'')
       \<in> set (result_headers (fst (handle_one_request sample_world
                 (sample_request ''GET'' ''/index.html'' []) sample_globals)))
   \<and> (''Pragma'', ''no-cache'')
       \<in> set (result_headers (fst (handle_one_request sample_world
                 (sample_request ''GET'' ''/index.html'' []) sample_globals)))
   \<and> (''Expires'', ''0'')
       \<in> set (result_headers (fst (handle_one_request sample_world
                 (sample_request ''GET'' ''/index.html'' []) sample_globals)))
   \<and> command (sample_request ''GET'' ''/app.js'' []) = ''GET''
   \<and> path (sample_request ''GET'' ''/app.js'' []) = ''/app.js''
   \<and> result_status (fst (handle_one_request sample_world
         (sample_request ''GET'' ''/app.js'' []) sample_globals)) = Some 200
   \<and> named [''cache-control'', ''pragma'', ''expires'']
         (result_headers (fst (handle_one_request sample_world
            (sample_request ''GET'' ''/app.js'' []) sample_globals))) = []"
proof -
  have e: "endswith (path (sample_request ''GET'' ''/index.html'' [])) ''.html''" by code_simp
  have s: "result_status (fst (handle_one_request sample_world
         (sample_request ''GET'' ''/index.html'' []) sample_globals)) = Some 200" by code_simp
  then obtain r calls where r: "fst (handle_one_request sample_world
         (sample_request ''GET'' ''/index.html'' []) sample_globals) = Inr (r, calls)"
    by (cases "fst (handle_one_request sample_world
         (sample_request ''GET'' ''/index.html'' []) sample_globals)")
       (auto simp: result_status_def)
  have a: "command (sample_request ''GET'' ''/app.js'' []) = ''GET''
           \<and> path (sample_request ''GET'' ''/app.js'' []) = ''/app.js''" by code_simp
  have t: "result_status (fst (handle_one_request sample_world
         (sample_request ''GET'' ''/app.js'' []) sample_globals)) = Some 200" by code_simp
  from html_never_cached [of "sample_request ''GET'' ''/index.html'' []" sample_world
         sample_globals r calls] e r
  have "(''Cache-Control'', ''no-cache, no-store, must-revalidate'') \<in> set (sent_headers r)
        \<and> (''Pragma'', ''no-cache'') \<in> set (sent_headers r)
        \<and> (''Expires'', ''0'') \<in> set (sent_headers r)"
    by blast
  moreover from html_never_cached [of "sample_request ''GET'' ''/app.js'' []" sample_world
         sample_globals] a
  have "named [''cache-control'', ''pragma'', ''expires'']
         (result_headers (fst (handle_one_request sample_world
            (sample_request ''GET'' ''/app.js'' []) sample_globals))) = []"
    by blast
  ultimately show ?thesis using e s a t by (simp add: r)
qed

subsection \<open>The injected configuration\<close>










end
